theory Spec2Isabelle
  imports Main "HOL-Library.Word" "HOL-Library.List_Lexorder"
begin

section \<open>The tracedb storage adapter (db/tracedb/adapter.go)\<close>

text \<open>
  The adapter is glue: each of its methods hands its arguments to the embedded database
  \<open>tracedb\<close>, to \<open>encoding/json\<close>, to \<open>os\<close> or to the logger. The methods are
  embedded as they are written; everything they call that lives outside the file is a
  field of the record \<open>env\<close> below, so that a theorem about a method holds for whatever
  those collaborators answer.
\<close>

subsection \<open>Data\<close>

text \<open>
  \<open>[]byte\<close> is a list of 8-bit words; a nil slice and an empty one are both \<open>[]\<close>,
  except where the code compares a slice with \<open>nil\<close> (the id returned by \<open>m.GenID\<close>),
  which is an \<open>option\<close>. \<open>uint32\<close> is a 32-bit word. The \<open>int\<close> of the \<open>limit\<close>
  argument is a mathematical integer, converted by \<open>uint32(limit)\<close>, which keeps the
  low 32 bits.
\<close>

type_synonym byte = "8 word"
type_synonym bytes = "byte list"
type_synonym uint32 = "32 word"

text \<open>An \<open>error\<close> value is what \<open>errors.New\<close> builds: a message.\<close>

datatype error = errors_New string

fun Error_msg :: "error \<Rightarrow> string" where
  "Error_msg (errors_New s) = s"

definition defaultDatabase :: string where
  "defaultDatabase = ''trace''"

definition adapterName :: string where
  "adapterName = ''tracedb''"

text \<open>\<open>maxResults\<close>: "Maximum number of records to return". No method of the file reads it.\<close>

definition maxResults :: int where
  "maxResults = 1024"

record configType =
  Dir :: string
  ValueDir :: string

text \<open>\<open>tracedb.Query\<close> and \<open>message.Entry\<close>, with the fields the adapter sets.\<close>

record Query =
  Topic :: bytes
  Contract :: uint32
  Limit :: uint32

record Entry =
  ID :: bytes
  Topic :: bytes
  Payload :: bytes
  Contract :: uint32

text \<open>
  The adapter struct. \<open>db\<close> is the pointer to the database: \<open>None\<close> is nil, \<open>Some d\<close>
  a handle whose database is in state \<open>d\<close>.
\<close>

record 'db adapter =
  db :: "'db option"
  version :: int

text \<open>A line written by \<open>log.Error(context, message)\<close>.\<close>

type_synonym logline = "string \<times> string"

text \<open>
  An \<open>ItemIterator\<close> is the sequence of positions it visits from \<open>First()\<close> on: the head
  is the current position, \<open>Valid()\<close> holds when the list is not empty and \<open>Next()\<close> drops
  the head. A position carries what \<open>Error()\<close> and \<open>Item().Value()\<close> answer there.
  The list is finite: the iterator of a query reaches its end.
\<close>

type_synonym ItemIterator = "(error option \<times> bytes) list"

text \<open>
  A method called through a nil pointer (the database handle, the iterator) dereferences
  it and panics; \<open>Return\<close> is a normal return.
\<close>

datatype 'a outcome = Panic | Return 'a

subsection \<open>The collaborators\<close>

text \<open>
  \<open>json_Unmarshal\<close> is \<open>json.Unmarshal\<close> into a \<open>configType\<close>; \<open>os_MkdirAll\<close> takes
  the path and the permission bits; \<open>tracedb_Open\<close> is \<open>tracedb.Open(path, nil)\<close>, which
  answers a handle or an error; \<open>db_Close\<close>, \<open>db_Batch\<close> and \<open>db_Items\<close> are the methods
  of an open database; \<open>b_PutEntry\<close>, \<open>b_DeleteEntry\<close> and \<open>b_Write\<close> those of the batch
  \<open>db_Batch\<close> hands to its callback (whatever \<open>PutEntry\<close> and \<open>DeleteEntry\<close> return is
  dropped by the adapter); \<open>m_GenID\<close> is \<open>message.GenID\<close>, \<open>None\<close> being a nil id.
  \<open>db_Items\<close> answers an iterator pointer and an error, each of which may be nil.
\<close>

record ('db, 'b) env =
  json_Unmarshal :: "string \<Rightarrow> error + configType"
  os_MkdirAll :: "string \<Rightarrow> nat \<Rightarrow> error option"
  tracedb_Open :: "string \<Rightarrow> error + 'db"
  db_Close :: "'db \<Rightarrow> error option"
  db_Batch :: "'db \<Rightarrow> ('b \<Rightarrow> 'b \<times> error option) \<Rightarrow> 'db \<times> error option"
  b_PutEntry :: "'b \<Rightarrow> Entry \<Rightarrow> 'b"
  b_DeleteEntry :: "'b \<Rightarrow> Entry \<Rightarrow> 'b"
  b_Write :: "'b \<Rightarrow> 'b \<times> error option"
  db_Items :: "'db \<Rightarrow> Query \<Rightarrow> ItemIterator option \<times> error option"
  m_GenID :: "Entry \<Rightarrow> bytes option"

subsection \<open>The methods\<close>

text \<open>The adapter registered by \<open>init\<close>: \<open>&adapter{}\<close>.\<close>

definition new_adapter :: "'db adapter" where
  "new_adapter = \<lparr>db = None, version = 0\<rparr>"

text \<open>
  \<open>Open\<close> returns the adapter with its error, and the lines it logged. A failure of
  \<open>os.MkdirAll\<close> is logged only; \<open>0777\<close> is 511.
\<close>

definition Open ::
  "('db, 'b) env \<Rightarrow> 'db adapter \<Rightarrow> string \<Rightarrow> ('db adapter \<times> error option) \<times> logline list" where
  "Open e a jsonconfig =
     (if db a \<noteq> None
      then ((a, Some (errors_New ''tracedb adapter is already connected'')), [])
      else
        case json_Unmarshal e jsonconfig of
          Inl err \<Rightarrow>
            ((a, Some (errors_New (''tracedb adapter failed to parse config: '' @ Error_msg err))), [])
        | Inr config \<Rightarrow>
            (let lg = (case os_MkdirAll e (Dir config) 511 of
                         Some err \<Rightarrow> [(''adapter.Open'', ''Unable to create db dir'')]
                       | None \<Rightarrow> [])
             in (case tracedb_Open e (Dir config @ ''/'' @ defaultDatabase) of
                   Inl err \<Rightarrow>
                     ((a\<lparr>db := None\<rparr>, Some err), lg @ [(''adapter.Open'', ''Unable to open db'')])
                 | Inr d \<Rightarrow> ((a\<lparr>db := Some d\<rparr>, None), lg))))"

definition Close :: "('db, 'b) env \<Rightarrow> 'db adapter \<Rightarrow> 'db adapter \<times> error option" where
  "Close e a =
     (case db a of
        None \<Rightarrow> (a, None)
      | Some d \<Rightarrow> (a\<lparr>db := None, version := - 1\<rparr>, db_Close e d))"

definition IsOpen :: "'db adapter \<Rightarrow> bool" where
  "IsOpen a = (db a \<noteq> None)"

definition GetName :: "'db adapter \<Rightarrow> string" where
  "GetName a = adapterName"

text \<open>
  \<open>Put\<close>, \<open>PutWithID\<close> and \<open>Delete\<close> call \<open>a.db.Batch\<close> without looking at \<open>a.db\<close>.
  The callback queues one entry and returns what \<open>b.Write()\<close> returns; the method
  returns what \<open>Batch\<close> returns. The database behind the handle is the one \<open>Batch\<close> leaves.
\<close>

definition Put ::
  "('db, 'b) env \<Rightarrow> 'db adapter \<Rightarrow> uint32 \<Rightarrow> bytes \<Rightarrow> bytes \<Rightarrow> ('db adapter \<times> error option) outcome" where
  "Put e a contract topic payload =
     (case db a of
        None \<Rightarrow> Panic
      | Some d \<Rightarrow>
          (case db_Batch e d (\<lambda>b. b_Write e (b_PutEntry e b
                  \<lparr>ID = [], Topic = topic, Payload = payload, Contract = contract\<rparr>)) of
             (d', err) \<Rightarrow> Return (a\<lparr>db := Some d'\<rparr>, err)))"

definition PutWithID ::
  "('db, 'b) env \<Rightarrow> 'db adapter \<Rightarrow> uint32 \<Rightarrow> bytes \<Rightarrow> bytes \<Rightarrow> bytes \<Rightarrow>
   ('db adapter \<times> error option) outcome" where
  "PutWithID e a contract topic messageId payload =
     (case db a of
        None \<Rightarrow> Panic
      | Some d \<Rightarrow>
          (case db_Batch e d (\<lambda>b. b_Write e (b_PutEntry e b
                  \<lparr>ID = messageId, Topic = topic, Payload = payload, Contract = contract\<rparr>)) of
             (d', err) \<Rightarrow> Return (a\<lparr>db := Some d'\<rparr>, err)))"

definition Delete ::
  "('db, 'b) env \<Rightarrow> 'db adapter \<Rightarrow> uint32 \<Rightarrow> bytes \<Rightarrow> bytes \<Rightarrow> ('db adapter \<times> error option) outcome" where
  "Delete e a contract topic messageId =
     (case db a of
        None \<Rightarrow> Panic
      | Some d \<Rightarrow>
          (case db_Batch e d (\<lambda>b. b_Write e (b_DeleteEntry e b
                  \<lparr>ID = messageId, Topic = topic, Payload = [], Contract = contract\<rparr>)) of
             (d', err) \<Rightarrow> Return (a\<lparr>db := Some d'\<rparr>, err)))"

text \<open>
  The loop of \<open>Get\<close>: \<open>for it.First(); it.Valid(); it.Next()\<close>. At a position whose
  \<open>Error()\<close> is set it logs and returns \<open>nil, err\<close>; otherwise it appends the value.
  It returns the matches with the error, and the lines logged.
\<close>

fun Get_loop ::
  "ItemIterator \<Rightarrow> bytes list \<Rightarrow> (bytes list \<times> error option) \<times> logline list" where
  "Get_loop [] matches = ((matches, None), [])"
| "Get_loop ((Some err, v) # it) matches =
     (([], Some err), [(''adapter.Query'', ''unable to query db: '' @ Error_msg err)])"
| "Get_loop ((None, v) # it) matches = Get_loop it (matches @ [v])"

text \<open>
  \<open>Get\<close> calls \<open>a.db.Items\<close> with \<open>Limit: uint32(limit)\<close>, assigns the error to \<open>err\<close>
  and goes on to \<open>it.First()\<close> with no test of either.
\<close>

definition Get ::
  "('db, 'b) env \<Rightarrow> 'db adapter \<Rightarrow> uint32 \<Rightarrow> bytes \<Rightarrow> int \<Rightarrow>
   (bytes list \<times> error option) outcome \<times> logline list" where
  "Get e a contract topic limit =
     (case db a of
        None \<Rightarrow> (Panic, [])
      | Some d \<Rightarrow>
          (case db_Items e d \<lparr>Query.Topic = topic, Query.Contract = contract,
                               Limit = word_of_int limit\<rparr> of
             (None, err) \<Rightarrow> (Panic, [])
           | (Some it, err) \<Rightarrow> (case Get_loop it [] of (r, lg) \<Rightarrow> (Return r, lg))))"

definition GenID ::
  "('db, 'b) env \<Rightarrow> uint32 \<Rightarrow> bytes \<Rightarrow> bytes \<Rightarrow> bytes option \<times> error option" where
  "GenID e contract topic payload =
     (case m_GenID e \<lparr>ID = [], Topic = topic, Payload = payload, Contract = contract\<rparr> of
        None \<Rightarrow> (None, Some (errors_New ''Key is empty.''))
      | Some i \<Rightarrow> (Some i, None))"

subsection \<open>The database behind the handle\<close>

text \<open>
  Modelled from the spec: the embedded database \<open>tracedb\<close> and its \<open>message\<close> package,
  which the adapter imports and which are not under src/. The spec describes them as
  IndexStore, BatchWriter and IDGenerator (its section 4); the definitions below follow
  those words. They are one environment the adapter can run in, used where a statement
  needs a concrete database.
\<close>

text \<open>
  Modelled from the spec: the IndexStore, missing from src/. "Ordered mapping from
  composite key (contract, topic, id) to a record locator", here the payload itself,
  kept as an association list with one pair for each key.
\<close>

type_synonym key = "uint32 \<times> bytes \<times> bytes"
type_synonym IndexStore = "(key \<times> bytes) list"

text \<open>Modelled from the spec: IndexStore.Put, missing from src/: "insert or overwrite".\<close>

definition IndexStore_Put :: "key \<Rightarrow> bytes \<Rightarrow> IndexStore \<Rightarrow> IndexStore" where
  "IndexStore_Put k v st = (k, v) # filter (\<lambda>kv. fst kv \<noteq> k) st"

text \<open>
  Modelled from the spec: IndexStore.Delete, missing from src/: "remove if present;
  no-op otherwise".
\<close>

definition IndexStore_Delete :: "key \<Rightarrow> IndexStore \<Rightarrow> IndexStore" where
  "IndexStore_Delete k st = filter (\<lambda>kv. fst kv \<noteq> k) st"

text \<open>
  Modelled from the spec: IndexStore.RangeScan, missing from src/: "returns at most
  limit most-recent entries for the given (contract, topic), in descending id order".
  Ids are compared as byte strings.
\<close>

definition RangeScan :: "uint32 \<Rightarrow> bytes \<Rightarrow> nat \<Rightarrow> IndexStore \<Rightarrow> IndexStore" where
  "RangeScan contract topic limit st =
     take limit (rev (sort_key (\<lambda>kv. snd (snd (fst kv)))
       (filter (\<lambda>kv. fst (fst kv) = contract \<and> fst (snd (fst kv)) = topic) st)))"

text \<open>
  Modelled from the spec: the IDGenerator, missing from src/: GenerateID "fails with
  EmptyKeyError when contract and topic and payload are all empty"; otherwise the id
  combines "a timestamp component" with "a content-derived fingerprint (hash of
  contract+topic+payload)". The clock reading \<open>now\<close> and the hash are parameters; the
  contract is hashed as its four bytes, most significant first.
\<close>

definition contract_bytes :: "uint32 \<Rightarrow> bytes" where
  "contract_bytes c = [ucast (drop_bit 24 c), ucast (drop_bit 16 c), ucast (drop_bit 8 c), ucast c]"

definition GenerateID :: "bytes \<Rightarrow> (bytes \<Rightarrow> bytes) \<Rightarrow> Entry \<Rightarrow> bytes option" where
  "GenerateID now hash e =
     (if Contract e = 0 \<and> Topic e = [] \<and> Payload e = [] then None
      else Some (now @ hash (contract_bytes (Contract e) @ Topic e @ Payload e)))"

text \<open>
  Modelled from the spec: the BatchWriter, missing from src/: operations are queued in
  a batch and "apply atomically" at commit. An entry put with no id gets one from the
  IDGenerator (nothing is stored when there is none to derive).
\<close>

datatype batch_op = PutEntry_op Entry | DeleteEntry_op Entry

type_synonym Batch = "batch_op list"

fun apply_op :: "(Entry \<Rightarrow> bytes option) \<Rightarrow> batch_op \<Rightarrow> IndexStore \<Rightarrow> IndexStore" where
  "apply_op gen (PutEntry_op en) st =
     (case (if ID en = [] then gen en else Some (ID en)) of
        None \<Rightarrow> st
      | Some i \<Rightarrow> IndexStore_Put (Contract en, Topic en, i) (Payload en) st)"
| "apply_op gen (DeleteEntry_op en) st = IndexStore_Delete (Contract en, Topic en, ID en) st"

definition Commit :: "(Entry \<Rightarrow> bytes option) \<Rightarrow> Batch \<Rightarrow> IndexStore \<Rightarrow> IndexStore" where
  "Commit gen b st = fold (apply_op gen) b st"

text \<open>
  Modelled from the spec: the database the adapter wraps, missing from src/, put
  together from the parts above. \<open>Batch\<close> runs the callback on an empty batch and
  commits what it queued unless the callback fails; \<open>Items\<close> is the range scan, no
  position of which reports an error. The JSON decoder and \<open>os.MkdirAll\<close> stay
  parameters; opening gives an empty store.
\<close>

definition spec_env ::
  "(string \<Rightarrow> error + configType) \<Rightarrow> (string \<Rightarrow> nat \<Rightarrow> error option) \<Rightarrow>
   bytes \<Rightarrow> (bytes \<Rightarrow> bytes) \<Rightarrow> (IndexStore, Batch) env" where
  "spec_env unmarshal mkdir now hash =
     \<lparr>json_Unmarshal = unmarshal,
      os_MkdirAll = mkdir,
      tracedb_Open = (\<lambda>path. Inr []),
      db_Close = (\<lambda>st. None),
      db_Batch = (\<lambda>st fn. case fn [] of
                     (b, Some err) \<Rightarrow> (st, Some err)
                   | (b, None) \<Rightarrow> (Commit (GenerateID now hash) b st, None)),
      b_PutEntry = (\<lambda>b en. b @ [PutEntry_op en]),
      b_DeleteEntry = (\<lambda>b en. b @ [DeleteEntry_op en]),
      b_Write = (\<lambda>b. (b, None)),
      db_Items = (\<lambda>st q. (Some (map (\<lambda>kv. (None, snd kv))
                     (RangeScan (Query.Contract q) (Query.Topic q) (unat (Limit q)) st)), None)),
      m_GenID = GenerateID now hash\<rparr>"

text \<open>
  A concrete environment: a decoder that knows the empty JSON object (which leaves
  every field of the configuration empty) and rejects anything else, a file system in
  which the empty path cannot be created, a fixed clock and the identity as hash.
\<close>

definition sample_env :: "(IndexStore, Batch) env" where
  "sample_env =
     spec_env (\<lambda>s. if s = ''{}'' then Inr \<lparr>Dir = [], ValueDir = []\<rparr>
                    else Inl (errors_New ''invalid character''))
              (\<lambda>path perm. if path = [] then Some (errors_New ''mkdir : no such file or directory'')
                            else None)
              [0, 0, 0, 1] (\<lambda>x. x)"

text \<open>The same environment with a database whose \<open>Items\<close> answers \<open>r\<close> to every query.\<close>

definition items_env :: "ItemIterator option \<times> error option \<Rightarrow> (IndexStore, Batch) env" where
  "items_env r = sample_env\<lparr>db_Items := (\<lambda>st q. r)\<rparr>"

text \<open>The same environment with a database that cannot be opened.\<close>

definition unavailable_env :: "(IndexStore, Batch) env" where
  "unavailable_env = sample_env\<lparr>tracedb_Open := (\<lambda>path. Inl (errors_New ''storage unavailable''))\<rparr>"

text \<open>
  Two stores: one with two entries under contract 1 and topic "a" (and one under topic
  "b"), one with 1025 entries under contract 1 and topic "a", entry \<open>i\<close> having the two
  bytes of \<open>i\<close> as its id.
\<close>

definition small_store :: IndexStore where
  "small_store = [((1, [97], [2]), [120]), ((1, [97], [1]), [121]), ((1, [98], [1]), [122])]"

definition big_store :: IndexStore where
  "big_store =
     map (\<lambda>i. ((1, [97], [word_of_nat (i div 256), word_of_nat (i mod 256)]), [120])) [0..<1025]"

section \<open>Properties\<close>

subsection \<open>The loop of Get and the range scan\<close>

lemma Get_loop_no_error:
  "\<forall>p\<in>set it. fst p = None \<Longrightarrow> Get_loop it acc = ((acc @ map snd it, None), [])"
  by (induction it acc rule: Get_loop.induct) auto

lemma Get_loop_error:
  "\<forall>p\<in>set pre. fst p = None \<Longrightarrow>
   Get_loop (pre @ (Some err, v) # post) acc =
     (([], Some err), [(''adapter.Query'', ''unable to query db: '' @ Error_msg err)])"
  by (induction pre acc rule: Get_loop.induct) auto

lemma Get_loop_error_nil:
  "snd (fst (Get_loop it acc)) \<noteq> None \<Longrightarrow> fst (fst (Get_loop it acc)) = []"
  by (induction it acc rule: Get_loop.induct) auto

lemma Get_spec_env:
  "Get (spec_env u m now h) \<lparr>db = Some st, version = v\<rparr> contract topic limit =
     (Return (map snd (RangeScan contract topic (unat (word_of_int limit :: uint32)) st), None), [])"
  by (simp add: Get_def spec_env_def Get_loop_no_error o_def)

lemma length_RangeScan:
  "length (RangeScan contract topic limit st) =
     min limit (length (filter (\<lambda>kv. fst (fst kv) = contract \<and> fst (snd (fst kv)) = topic) st))"
  by (simp add: RangeScan_def min.commute)

lemma length_RangeScan_big: "length (RangeScan 1 [97] n big_store) = min n 1025"
  by (simp add: length_RangeScan big_store_def filter_map o_def)

lemma filter_absent: "k \<notin> fst ` set st \<Longrightarrow> filter (\<lambda>kv. fst kv \<noteq> k) st = st"
  by (induction st) auto

subsection \<open>Get and the limit\<close>

text \<open>
  Claim C1 says that \<open>Get\<close> with a limit above 1024 returns what \<open>Get\<close> with limit 1024
  returns. \<open>Get\<close> hands \<open>uint32(limit)\<close> to \<open>Items\<close> as it is and never reads
  \<open>maxResults\<close>. On a database that holds 1025 entries of the topic and answers as many
  as the query asks for, limit 1025 and limit 1024 give different results. And since the
  conversion keeps the low 32 bits only, limit \<open>2^32 + 1\<close> asks for one entry: on a store
  with two entries of the topic it returns one payload where limit 1024 returns both.
\<close>

theorem Get_limit_not_clamped:
  "Get sample_env \<lparr>db = Some big_store, version = 0\<rparr> 1 [97] 1025 \<noteq>
   Get sample_env \<lparr>db = Some big_store, version = 0\<rparr> 1 [97] 1024
   \<and> Get sample_env \<lparr>db = Some small_store, version = 0\<rparr> 1 [97] 4294967297 =
       (Return ([[120]], None), [])
   \<and> Get sample_env \<lparr>db = Some small_store, version = 0\<rparr> 1 [97] 1024 =
       (Return ([[120], [121]], None), [])"
proof -
  have "length (map snd (RangeScan 1 [97] (unat (word_of_int 1025 :: uint32)) big_store)) \<noteq>
        length (map snd (RangeScan 1 [97] (unat (word_of_int 1024 :: uint32)) big_store))"
    by (simp add: length_RangeScan_big)
  then have "map snd (RangeScan 1 [97] (unat (word_of_int 1025 :: uint32)) big_store) \<noteq>
        map snd (RangeScan 1 [97] (unat (word_of_int 1024 :: uint32)) big_store)"
    by metis
  then have more: "Get sample_env \<lparr>db = Some big_store, version = 0\<rparr> 1 [97] 1025 \<noteq>
      Get sample_env \<lparr>db = Some big_store, version = 0\<rparr> 1 [97] 1024"
    by (simp add: sample_env_def Get_spec_env)
  have wrapped: "Get sample_env \<lparr>db = Some small_store, version = 0\<rparr> 1 [97] 4294967297 =
      (Return ([[120]], None), [])"
    by (simp add: sample_env_def Get_spec_env small_store_def RangeScan_def)
  have capped: "Get sample_env \<lparr>db = Some small_store, version = 0\<rparr> 1 [97] 1024 =
      (Return ([[120], [121]], None), [])"
    by (simp add: sample_env_def Get_spec_env small_store_def RangeScan_def)
  from more wrapped capped show ?thesis by blast
qed

subsection \<open>Get and errors\<close>

text \<open>
  Claim C2 says that when the iterator reports an error after some entries have been
  collected, \<open>Get\<close> returns the payloads collected so far together with the error. It
  does not: with one payload collected and an error at the second position, the result
  is not that payload with the error.
\<close>

theorem Get_partial_results_counterexample:
  "fst (Get (items_env (Some [(None, [120]), (Some (errors_New ''corrupt record''), [121])], None))
          \<lparr>db = Some small_store, version = 0\<rparr> 1 [97] 10)
   \<noteq> Return ([[120]], Some (errors_New ''corrupt record''))"
  by (simp add: Get_def items_env_def)

text \<open>
  Claim C2, amended: when the iterator reports an error at a position, whatever was
  collected before it, \<open>Get\<close> returns nil, that is no payload at all, together with that
  error, and logs it: the partial results are discarded (\<open>return nil, err\<close>).
\<close>

theorem Get_error_discards_matches:
  assumes "db a = Some d"
    and "db_Items e d \<lparr>Query.Topic = topic, Query.Contract = contract, Limit = word_of_int limit\<rparr>
           = (Some (pre @ (Some err, v) # post), err0)"
    and "\<forall>p\<in>set pre. fst p = None"
  shows "Get e a contract topic limit =
           (Return ([], Some err), [(''adapter.Query'', ''unable to query db: '' @ Error_msg err)])"
  using assms by (simp add: Get_def Get_loop_error)

theorem Get_error_discards_matches_witness:
  "Get (items_env (Some [(None, [120]), (Some (errors_New ''corrupt record''), [121]), (None, [122])],
                   None))
       \<lparr>db = Some small_store, version = 0\<rparr> 1 [97] 10
   = (Return ([], Some (errors_New ''corrupt record'')),
      [(''adapter.Query'', ''unable to query db: corrupt record'')])"
  using Get_error_discards_matches [of "\<lparr>db = Some small_store, version = 0\<rparr>" small_store
      "items_env (Some [(None, [120]), (Some (errors_New ''corrupt record''), [121]), (None, [122])],
                  None)"
      "[97]" 1 10 "[(None, [120])]" "errors_New ''corrupt record''" "[121]" "[(None, [122])]" None]
  by (simp add: items_env_def)

text \<open>
  Claim C3: \<open>Get\<close> never looks at the error \<open>db.Items\<close> returns before it uses the
  iterator. When \<open>Items\<close> fails, \<open>Get\<close> panics if the iterator is nil; otherwise its
  result is what the loop makes of the iterator alone, so that an iterator none of whose
  positions reports an error gives the payloads with a nil error: the error of \<open>Items\<close>
  is dropped.
\<close>

theorem Get_ignores_Items_error:
  assumes "db a = Some d"
    and "db_Items e d \<lparr>Query.Topic = topic, Query.Contract = contract, Limit = word_of_int limit\<rparr>
           = (it, Some err)"
  shows "(it = None \<longrightarrow> Get e a contract topic limit = (Panic, []))
       \<and> (\<forall>i. it = Some i \<longrightarrow>
             Get e a contract topic limit = (Return (fst (Get_loop i [])), snd (Get_loop i [])))
       \<and> (\<forall>i. it = Some i \<and> (\<forall>p\<in>set i. fst p = None) \<longrightarrow>
             Get e a contract topic limit = (Return (map snd i, None), []))"
  using assms by (auto simp: Get_def Get_loop_no_error split: prod.splits)

theorem Get_ignores_Items_error_witness:
  "Get (items_env (None, Some (errors_New ''database is closed'')))
       \<lparr>db = Some small_store, version = 0\<rparr> 1 [97] 10 = (Panic, [])
   \<and> Get (items_env (Some [(None, [120]), (None, [121])], Some (errors_New ''topic too large'')))
       \<lparr>db = Some small_store, version = 0\<rparr> 1 [97] 10 = (Return ([[120], [121]], None), [])"
  using Get_ignores_Items_error [of "\<lparr>db = Some small_store, version = 0\<rparr>" small_store
      "items_env (None, Some (errors_New ''database is closed''))" "[97]" 1 10 None
      "errors_New ''database is closed''"]
    Get_ignores_Items_error [of "\<lparr>db = Some small_store, version = 0\<rparr>" small_store
      "items_env (Some [(None, [120]), (None, [121])], Some (errors_New ''topic too large''))"
      "[97]" 1 10 "Some [(None, [120]), (None, [121])]" "errors_New ''topic too large''"]
  by (simp add: items_env_def)

subsection \<open>Operations on an adapter that is not open\<close>

text \<open>
  Claim C4 says that no operation panics and that \<open>Put\<close>, \<open>PutWithID\<close>, \<open>Get\<close> and
  \<open>Delete\<close> on an adapter that is not open yield an error. None of the four looks at
  \<open>a.db\<close> before calling a method through it: on the adapter as registered, whose
  handle is nil, each of them panics.
\<close>

theorem not_open_counterexample:
  "Put sample_env new_adapter 1 [97] [120] = Panic
   \<and> PutWithID sample_env new_adapter 1 [97] [1] [120] = Panic
   \<and> fst (Get sample_env new_adapter 1 [97] 10) = Panic
   \<and> Delete sample_env new_adapter 1 [97] [1] = Panic"
  by (simp add: Put_def PutWithID_def Get_def Delete_def new_adapter_def)

text \<open>
  Claim C4, amended: \<open>Open\<close>, \<open>Close\<close> and \<open>GenID\<close> return either a successful result
  or a single error value, in every state: an \<open>Open\<close> that returns nil leaves a handle,
  one that returns an error leaves the handle as it was; \<open>Close\<close> leaves no handle and
  returns nil or what \<open>db.Close\<close> returned; \<open>GenID\<close> returns an id or an error, never
  both and never neither. On an open adapter \<open>Put\<close>, \<open>PutWithID\<close> and \<open>Delete\<close> return
  the one error value (nil on success) that \<open>db.Batch\<close> returns for the callback that
  queues their entry and writes, and \<open>Get\<close>, whenever \<open>db.Items\<close> hands back an iterator,
  returns what its loop returns: the payloads with a nil error, or no payload with one
  error. On an adapter that is not open the four of them panic.
\<close>

theorem adapter_operations_outcomes:
  "(db a = None \<longrightarrow>
      Put e a contract topic payload = Panic
      \<and> PutWithID e a contract topic messageId payload = Panic
      \<and> Delete e a contract topic messageId = Panic
      \<and> Get e a contract topic limit = (Panic, []))
   \<and> (\<forall>d. db a = Some d \<longrightarrow>
        Put e a contract topic payload =
          Return (a\<lparr>db := Some (fst (db_Batch e d (\<lambda>b. b_Write e (b_PutEntry e b
                    \<lparr>ID = [], Topic = topic, Payload = payload, Contract = contract\<rparr>))))\<rparr>,
                  snd (db_Batch e d (\<lambda>b. b_Write e (b_PutEntry e b
                    \<lparr>ID = [], Topic = topic, Payload = payload, Contract = contract\<rparr>))))
        \<and> PutWithID e a contract topic messageId payload =
          Return (a\<lparr>db := Some (fst (db_Batch e d (\<lambda>b. b_Write e (b_PutEntry e b
                    \<lparr>ID = messageId, Topic = topic, Payload = payload, Contract = contract\<rparr>))))\<rparr>,
                  snd (db_Batch e d (\<lambda>b. b_Write e (b_PutEntry e b
                    \<lparr>ID = messageId, Topic = topic, Payload = payload, Contract = contract\<rparr>))))
        \<and> Delete e a contract topic messageId =
          Return (a\<lparr>db := Some (fst (db_Batch e d (\<lambda>b. b_Write e (b_DeleteEntry e b
                    \<lparr>ID = messageId, Topic = topic, Payload = [], Contract = contract\<rparr>))))\<rparr>,
                  snd (db_Batch e d (\<lambda>b. b_Write e (b_DeleteEntry e b
                    \<lparr>ID = messageId, Topic = topic, Payload = [], Contract = contract\<rparr>)))))
   \<and> (\<forall>d it err0. db a = Some d \<and>
         db_Items e d \<lparr>Query.Topic = topic, Query.Contract = contract, Limit = word_of_int limit\<rparr>
           = (Some it, err0) \<longrightarrow>
         Get e a contract topic limit = (Return (fst (Get_loop it [])), snd (Get_loop it []))
         \<and> (snd (fst (Get_loop it [])) \<noteq> None \<longrightarrow> fst (fst (Get_loop it [])) = []))
   \<and> (snd (fst (Open e a jsonconfig)) = None \<longrightarrow> db (fst (fst (Open e a jsonconfig))) \<noteq> None)
   \<and> (snd (fst (Open e a jsonconfig)) \<noteq> None \<longrightarrow> db (fst (fst (Open e a jsonconfig))) = db a)
   \<and> db (fst (Close e a)) = None
   \<and> snd (Close e a) = (case db a of None \<Rightarrow> None | Some d \<Rightarrow> db_Close e d)
   \<and> (fst (GenID e contract topic payload) = None \<longleftrightarrow> snd (GenID e contract topic payload) \<noteq> None)"
proof -
  have closed: "db a = None \<longrightarrow>
      Put e a contract topic payload = Panic
      \<and> PutWithID e a contract topic messageId payload = Panic
      \<and> Delete e a contract topic messageId = Panic
      \<and> Get e a contract topic limit = (Panic, [])"
    by (simp add: Put_def PutWithID_def Delete_def Get_def)
  have batch: "\<forall>d. db a = Some d \<longrightarrow>
        Put e a contract topic payload =
          Return (a\<lparr>db := Some (fst (db_Batch e d (\<lambda>b. b_Write e (b_PutEntry e b
                    \<lparr>ID = [], Topic = topic, Payload = payload, Contract = contract\<rparr>))))\<rparr>,
                  snd (db_Batch e d (\<lambda>b. b_Write e (b_PutEntry e b
                    \<lparr>ID = [], Topic = topic, Payload = payload, Contract = contract\<rparr>))))
        \<and> PutWithID e a contract topic messageId payload =
          Return (a\<lparr>db := Some (fst (db_Batch e d (\<lambda>b. b_Write e (b_PutEntry e b
                    \<lparr>ID = messageId, Topic = topic, Payload = payload, Contract = contract\<rparr>))))\<rparr>,
                  snd (db_Batch e d (\<lambda>b. b_Write e (b_PutEntry e b
                    \<lparr>ID = messageId, Topic = topic, Payload = payload, Contract = contract\<rparr>))))
        \<and> Delete e a contract topic messageId =
          Return (a\<lparr>db := Some (fst (db_Batch e d (\<lambda>b. b_Write e (b_DeleteEntry e b
                    \<lparr>ID = messageId, Topic = topic, Payload = [], Contract = contract\<rparr>))))\<rparr>,
                  snd (db_Batch e d (\<lambda>b. b_Write e (b_DeleteEntry e b
                    \<lparr>ID = messageId, Topic = topic, Payload = [], Contract = contract\<rparr>))))"
    by (simp add: Put_def PutWithID_def Delete_def split: prod.splits)
  have scan: "\<forall>d it err0. db a = Some d \<and>
         db_Items e d \<lparr>Query.Topic = topic, Query.Contract = contract, Limit = word_of_int limit\<rparr>
           = (Some it, err0) \<longrightarrow>
         Get e a contract topic limit = (Return (fst (Get_loop it [])), snd (Get_loop it []))
         \<and> (snd (fst (Get_loop it [])) \<noteq> None \<longrightarrow> fst (fst (Get_loop it [])) = [])"
    by (auto simp: Get_def Get_loop_error_nil split: prod.splits)
  have open_result:
    "(snd (fst (Open e a jsonconfig)) = None \<longrightarrow> db (fst (fst (Open e a jsonconfig))) \<noteq> None)
     \<and> (snd (fst (Open e a jsonconfig)) \<noteq> None \<longrightarrow> db (fst (fst (Open e a jsonconfig))) = db a)"
    by (auto simp: Open_def Let_def split: sum.splits option.splits)
  have close_result: "db (fst (Close e a)) = None
     \<and> snd (Close e a) = (case db a of None \<Rightarrow> None | Some d \<Rightarrow> db_Close e d)"
    by (simp add: Close_def split: option.splits)
  have gen: "fst (GenID e contract topic payload) = None
     \<longleftrightarrow> snd (GenID e contract topic payload) \<noteq> None"
    by (simp add: GenID_def split: option.splits)
  from closed batch scan open_result close_result gen show ?thesis by blast
qed

theorem adapter_operations_outcomes_witness:
  "Put sample_env \<lparr>db = Some small_store, version = 0\<rparr> 1 [97] [120]
     = Return (\<lparr>db = Some (((1, [97], [0, 0, 0, 1, 0, 0, 0, 1, 97, 120]), [120]) # small_store),
                version = 0\<rparr>, None)
   \<and> PutWithID sample_env \<lparr>db = Some small_store, version = 0\<rparr> 1 [97] [2] [119]
     = Return (\<lparr>db = Some [((1, [97], [2]), [119]), ((1, [97], [1]), [121]), ((1, [98], [1]), [122])],
                version = 0\<rparr>, None)
   \<and> Delete sample_env \<lparr>db = Some small_store, version = 0\<rparr> 1 [97] [2]
     = Return (\<lparr>db = Some [((1, [97], [1]), [121]), ((1, [98], [1]), [122])], version = 0\<rparr>, None)
   \<and> Get sample_env \<lparr>db = Some small_store, version = 0\<rparr> 1 [97] 10
     = (Return ([[120], [121]], None), [])
   \<and> Get sample_env (new_adapter :: IndexStore adapter) 1 [97] 10 = (Panic, [])
   \<and> db (fst (fst (Open sample_env (new_adapter :: IndexStore adapter) ''{}''))) = Some []
   \<and> db (fst (fst (Open unavailable_env (new_adapter :: IndexStore adapter) ''{}''))) = None
   \<and> Close sample_env \<lparr>db = Some small_store, version = 0\<rparr> = (\<lparr>db = None, version = - 1\<rparr>, None)
   \<and> GenID sample_env 1 [97] [] = (Some [0, 0, 0, 1, 0, 0, 0, 1, 97], None)"
proof -
  have batch_put: "db_Batch sample_env small_store (\<lambda>b. b_Write sample_env (b_PutEntry sample_env b
        \<lparr>ID = [], Topic = [97], Payload = [120], Contract = 1\<rparr>))
      = (((1, [97], [0, 0, 0, 1, 0, 0, 0, 1, 97, 120]), [120]) # small_store, None)"
    by (simp add: sample_env_def spec_env_def Commit_def GenerateID_def contract_bytes_def
        IndexStore_Put_def small_store_def)
  have batch_put_id: "db_Batch sample_env small_store (\<lambda>b. b_Write sample_env (b_PutEntry sample_env b
        \<lparr>ID = [2], Topic = [97], Payload = [119], Contract = 1\<rparr>))
      = ([((1, [97], [2]), [119]), ((1, [97], [1]), [121]), ((1, [98], [1]), [122])], None)"
    by (simp add: sample_env_def spec_env_def Commit_def IndexStore_Put_def small_store_def)
  have batch_delete: "db_Batch sample_env small_store (\<lambda>b. b_Write sample_env (b_DeleteEntry sample_env b
        \<lparr>ID = [2], Topic = [97], Payload = [], Contract = 1\<rparr>))
      = ([((1, [97], [1]), [121]), ((1, [98], [1]), [122])], None)"
    by (simp add: sample_env_def spec_env_def Commit_def IndexStore_Delete_def small_store_def)
  have items: "db_Items sample_env small_store
      \<lparr>Query.Topic = [97], Query.Contract = 1, Limit = word_of_int 10\<rparr>
      = (Some [(None, [120]), (None, [121])], None)"
    by (simp add: sample_env_def spec_env_def small_store_def RangeScan_def)
  have opened: "Open sample_env (new_adapter :: IndexStore adapter) ''{}'' =
      ((\<lparr>db = Some [], version = 0\<rparr>, None), [(''adapter.Open'', ''Unable to create db dir'')])"
    by (simp add: Open_def sample_env_def spec_env_def new_adapter_def defaultDatabase_def)
  have failed: "Open unavailable_env (new_adapter :: IndexStore adapter) ''{}'' =
      ((\<lparr>db = None, version = 0\<rparr>, Some (errors_New ''storage unavailable'')),
       [(''adapter.Open'', ''Unable to create db dir''), (''adapter.Open'', ''Unable to open db'')])"
    by (simp add: Open_def unavailable_env_def sample_env_def spec_env_def new_adapter_def
        defaultDatabase_def)
  have closed: "Close sample_env \<lparr>db = Some small_store, version = 0\<rparr>
      = (\<lparr>db = None, version = - 1\<rparr>, None)"
    by (simp add: Close_def sample_env_def spec_env_def)
  have gen: "GenID sample_env 1 [97] [] = (Some [0, 0, 0, 1, 0, 0, 0, 1, 97], None)"
    by (simp add: GenID_def sample_env_def spec_env_def GenerateID_def contract_bytes_def)
  have put: "Put sample_env \<lparr>db = Some small_store, version = 0\<rparr> 1 [97] [120]
      = Return (\<lparr>db = Some (((1, [97], [0, 0, 0, 1, 0, 0, 0, 1, 97, 120]), [120]) # small_store),
                 version = 0\<rparr>, None)"
    using adapter_operations_outcomes [where e = sample_env
        and a = "\<lparr>db = Some small_store, version = 0\<rparr>" and contract = 1 and topic = "[97]"
        and payload = "[120]" and messageId = "[2]" and limit = 10 and jsonconfig = "''{}''"]
      batch_put
    by simp
  have put_id_delete_get:
    "PutWithID sample_env \<lparr>db = Some small_store, version = 0\<rparr> 1 [97] [2] [119]
       = Return (\<lparr>db = Some [((1, [97], [2]), [119]), ((1, [97], [1]), [121]), ((1, [98], [1]), [122])],
                  version = 0\<rparr>, None)
     \<and> Delete sample_env \<lparr>db = Some small_store, version = 0\<rparr> 1 [97] [2]
       = Return (\<lparr>db = Some [((1, [97], [1]), [121]), ((1, [98], [1]), [122])], version = 0\<rparr>, None)
     \<and> Get sample_env \<lparr>db = Some small_store, version = 0\<rparr> 1 [97] 10
       = (Return ([[120], [121]], None), [])"
    using adapter_operations_outcomes [where e = sample_env
        and a = "\<lparr>db = Some small_store, version = 0\<rparr>" and contract = 1 and topic = "[97]"
        and payload = "[119]" and messageId = "[2]" and limit = 10 and jsonconfig = "''{}''"]
      batch_put_id batch_delete items
    by simp
  have not_open: "Get sample_env (new_adapter :: IndexStore adapter) 1 [97] 10 = (Panic, [])"
    using adapter_operations_outcomes [where e = sample_env
        and a = "new_adapter :: IndexStore adapter" and contract = 1 and topic = "[97]"
        and payload = "[119]" and messageId = "[2]" and limit = 10 and jsonconfig = "''{}''"]
    by (simp add: new_adapter_def)
  from put put_id_delete_get not_open opened failed closed gen show ?thesis by simp
qed

subsection \<open>Open and Close\<close>

text \<open>
  Claim C5 says that \<open>Open\<close> returns an error only when the configuration does not
  parse or \<open>tracedb.Open\<close> fails. There is a third source, the guard at the head of
  \<open>Open\<close>: on an adapter that holds a handle, with a configuration that parses and a
  database that would open, \<open>Open\<close> returns the error "tracedb adapter is already
  connected".
\<close>

theorem Open_error_sources_counterexample:
  "json_Unmarshal sample_env ''{}'' = Inr \<lparr>Dir = [], ValueDir = []\<rparr>
   \<and> tracedb_Open sample_env ([] @ ''/trace'') = Inr []
   \<and> snd (fst (Open sample_env \<lparr>db = Some small_store, version = 0\<rparr> ''{}''))
       = Some (errors_New ''tracedb adapter is already connected'')"
  by (simp add: Open_def sample_env_def spec_env_def)

text \<open>
  Claim C5, amended: \<open>Open\<close> returns an error exactly when the adapter is already open,
  the configuration does not parse or \<open>tracedb.Open\<close> fails. On an adapter that is not
  open, with a configuration that parses: a failure of \<open>os.MkdirAll\<close> is logged and
  nothing more; when the database opens, \<open>Open\<close> keeps the handle and returns nil; when
  it does not, \<open>Open\<close> logs that as well and returns the error of \<open>tracedb.Open\<close>.
\<close>

theorem Open_error_sources:
  "(snd (fst (Open e a jsonconfig)) \<noteq> None \<longleftrightarrow>
      db a \<noteq> None \<or>
      (case json_Unmarshal e jsonconfig of
         Inl err \<Rightarrow> True
       | Inr config \<Rightarrow> isl (tracedb_Open e (Dir config @ ''/trace''))))
   \<and> (\<forall>config d. db a = None \<and> json_Unmarshal e jsonconfig = Inr config
        \<and> tracedb_Open e (Dir config @ ''/trace'') = Inr d \<longrightarrow>
        Open e a jsonconfig =
          ((a\<lparr>db := Some d\<rparr>, None),
           (if os_MkdirAll e (Dir config) 511 = None then []
            else [(''adapter.Open'', ''Unable to create db dir'')])))
   \<and> (\<forall>config err. db a = None \<and> json_Unmarshal e jsonconfig = Inr config
        \<and> tracedb_Open e (Dir config @ ''/trace'') = Inl err \<longrightarrow>
        Open e a jsonconfig =
          ((a\<lparr>db := None\<rparr>, Some err),
           (if os_MkdirAll e (Dir config) 511 = None then []
            else [(''adapter.Open'', ''Unable to create db dir'')])
           @ [(''adapter.Open'', ''Unable to open db'')]))"
  by (auto simp: Open_def defaultDatabase_def Let_def split: sum.splits option.splits)

theorem Open_error_sources_witness:
  "Open sample_env (new_adapter :: IndexStore adapter) ''{}'' =
       ((\<lparr>db = Some [], version = 0\<rparr>, None), [(''adapter.Open'', ''Unable to create db dir'')])
   \<and> Open unavailable_env (new_adapter :: IndexStore adapter) ''{}'' =
       ((\<lparr>db = None, version = 0\<rparr>, Some (errors_New ''storage unavailable'')),
        [(''adapter.Open'', ''Unable to create db dir''), (''adapter.Open'', ''Unable to open db'')])
   \<and> snd (fst (Open sample_env (new_adapter :: IndexStore adapter) ''dir'')) \<noteq> None
   \<and> snd (fst (Open sample_env \<lparr>db = Some small_store, version = 0\<rparr> ''{}'')) \<noteq> None"
proof -
  have parsed: "json_Unmarshal sample_env ''{}'' = Inr \<lparr>Dir = [], ValueDir = []\<rparr>"
    and rejected: "json_Unmarshal sample_env ''dir'' = Inl (errors_New ''invalid character'')"
    and mkdir: "os_MkdirAll sample_env [] 511 = Some (errors_New ''mkdir : no such file or directory'')"
    and opens: "tracedb_Open sample_env ''/trace'' = Inr []"
    by (simp_all add: sample_env_def spec_env_def)
  have parsed': "json_Unmarshal unavailable_env ''{}'' = Inr \<lparr>Dir = [], ValueDir = []\<rparr>"
    and mkdir': "os_MkdirAll unavailable_env [] 511
        = Some (errors_New ''mkdir : no such file or directory'')"
    and fails: "tracedb_Open unavailable_env ''/trace'' = Inl (errors_New ''storage unavailable'')"
    by (simp_all add: unavailable_env_def sample_env_def spec_env_def)
  show ?thesis
    using parsed rejected mkdir opens parsed' mkdir' fails
      Open_error_sources [of sample_env "new_adapter :: IndexStore adapter" "''{}''"]
      Open_error_sources [of unavailable_env "new_adapter :: IndexStore adapter" "''{}''"]
      Open_error_sources [of sample_env "new_adapter :: IndexStore adapter" "''dir''"]
      Open_error_sources [of sample_env "\<lparr>db = Some small_store, version = 0\<rparr>" "''{}''"]
    by (simp add: new_adapter_def)
qed

text \<open>
  Claim C6: \<open>Open\<close> on an adapter that holds a handle fails with the error "tracedb
  adapter is already connected"; the adapter, and with it the handle, is as it was,
  nothing is logged and no collaborator is consulted (the result is the same in every
  environment).
\<close>

theorem Open_already_open:
  assumes "db a = Some d"
  shows "Open e a jsonconfig =
           ((a, Some (errors_New ''tracedb adapter is already connected'')), [])"
  using assms by (simp add: Open_def)

theorem Open_already_open_witness:
  "db \<lparr>db = Some small_store, version = 0\<rparr> = Some small_store
   \<and> Open sample_env \<lparr>db = Some small_store, version = 0\<rparr> ''{}'' =
       ((\<lparr>db = Some small_store, version = 0\<rparr>,
         Some (errors_New ''tracedb adapter is already connected'')), [])"
  using Open_already_open [of "\<lparr>db = Some small_store, version = 0\<rparr>" small_store sample_env "''{}''"]
  by simp

text \<open>
  Claim C7: \<open>Close\<close> on an adapter with no handle returns nil and leaves the adapter as
  it is; so a \<open>Close\<close> that follows a \<open>Close\<close> returns nil and changes nothing.
\<close>

theorem Close_closed:
  "(db a = None \<longrightarrow> Close e a = (a, None))
   \<and> Close e (fst (Close e a)) = (fst (Close e a), None)"
  by (simp add: Close_def split: option.splits)

theorem Close_closed_witness:
  "Close sample_env (new_adapter :: IndexStore adapter) = (new_adapter, None)
   \<and> Close sample_env (fst (Close sample_env \<lparr>db = Some small_store, version = 0\<rparr>))
       = (\<lparr>db = None, version = - 1\<rparr>, None)"
  using Close_closed [of "new_adapter :: IndexStore adapter" sample_env]
    Close_closed [of "\<lparr>db = Some small_store, version = 0\<rparr>" sample_env]
  by (simp add: new_adapter_def Close_def)

subsection \<open>GenID\<close>

text \<open>
  Claim C8: \<open>GenID\<close> fails with the error "Key is empty." exactly when \<open>message.GenID\<close>
  derives no id; otherwise it returns that id and a nil error; it never returns a nil
  id with a nil error. With the generator of the spec, no id is derived exactly when
  contract, topic and payload are all empty, and any other input gets an id.
\<close>

theorem GenID_empty_key:
  "(GenID e contract topic payload = (None, Some (errors_New ''Key is empty.'')) \<longleftrightarrow>
      m_GenID e \<lparr>ID = [], Topic = topic, Payload = payload, Contract = contract\<rparr> = None)
   \<and> (\<forall>i. m_GenID e \<lparr>ID = [], Topic = topic, Payload = payload, Contract = contract\<rparr> = Some i
         \<longrightarrow> GenID e contract topic payload = (Some i, None))
   \<and> GenID e contract topic payload \<noteq> (None, None)
   \<and> (GenID (spec_env u m now h) contract topic payload
         = (None, Some (errors_New ''Key is empty.''))
       \<longleftrightarrow> contract = 0 \<and> topic = [] \<and> payload = [])
   \<and> (\<not> (contract = 0 \<and> topic = [] \<and> payload = []) \<longrightarrow>
         (\<exists>i. GenID (spec_env u m now h) contract topic payload = (Some i, None)))"
  by (auto simp: GenID_def spec_env_def GenerateID_def split: option.splits)

theorem GenID_empty_key_witness:
  "GenID sample_env 0 [] [] = (None, Some (errors_New ''Key is empty.''))
   \<and> GenID sample_env 0 [] [1] = (Some [0, 0, 0, 1, 0, 0, 0, 0, 1], None)
   \<and> GenID sample_env 7 [] [] \<noteq> (None, Some (errors_New ''Key is empty.''))"
proof -
  have gen: "m_GenID sample_env \<lparr>ID = [], Topic = [], Payload = [1], Contract = 0\<rparr>
      = Some [0, 0, 0, 1, 0, 0, 0, 0, 1]"
    by (simp add: sample_env_def spec_env_def GenerateID_def contract_bytes_def)
  show ?thesis
    using gen
      GenID_empty_key [of sample_env 0 "[]" "[]" "json_Unmarshal sample_env"
        "os_MkdirAll sample_env" "[0, 0, 0, 1]" "\<lambda>x. x"]
      GenID_empty_key [of sample_env 0 "[]" "[1]" "json_Unmarshal sample_env"
        "os_MkdirAll sample_env" "[0, 0, 0, 1]" "\<lambda>x. x"]
      GenID_empty_key [of sample_env 7 "[]" "[]" "json_Unmarshal sample_env"
        "os_MkdirAll sample_env" "[0, 0, 0, 1]" "\<lambda>x. x"]
    by (simp add: sample_env_def spec_env_def GenID_def GenerateID_def contract_bytes_def)
qed

subsection \<open>Delete\<close>

text \<open>
  Claim C9: on an open adapter whose database behaves as the spec's store does,
  \<open>Delete\<close> of a (contract, topic, id) triple under which nothing is stored returns a
  nil error and leaves the store, and the adapter, as they were.
\<close>

theorem Delete_nonexistent:
  assumes "db a = Some st" and "(contract, topic, messageId) \<notin> fst ` set st"
  shows "Delete (spec_env u m now h) a contract topic messageId = Return (a, None)"
  using assms
  by (simp add: Delete_def spec_env_def Commit_def IndexStore_Delete_def filter_absent)

theorem Delete_nonexistent_witness:
  "(1, [97], [3]) \<notin> fst ` set small_store
   \<and> Delete sample_env \<lparr>db = Some small_store, version = 0\<rparr> 1 [97] [3]
       = Return (\<lparr>db = Some small_store, version = 0\<rparr>, None)"
proof -
  have absent: "(1 :: uint32, [97 :: byte], [3 :: byte]) \<notin> fst ` set small_store"
    by (simp add: small_store_def)
  then show ?thesis
    using Delete_nonexistent [of "\<lparr>db = Some small_store, version = 0\<rparr>" small_store 1 "[97]" "[3]"]
    by (simp add: sample_env_def)
qed

subsection \<open>IsOpen\<close>

text \<open>
  Claim C10: \<open>IsOpen\<close> holds exactly when the adapter has a handle. It is false on the
  adapter as registered; an \<open>Open\<close> that returns nil started from an adapter that was
  not open and leaves one that is; an \<open>Open\<close> that fails leaves \<open>IsOpen\<close> as it was;
  after \<open>Close\<close>, whatever it returns, \<open>IsOpen\<close> is false; \<open>Put\<close>, \<open>PutWithID\<close> and
  \<open>Delete\<close>, when they return, were called on an open adapter and leave it open.
\<close>

theorem IsOpen_lifecycle:
  "(IsOpen a \<longleftrightarrow> db a \<noteq> None)
   \<and> \<not> IsOpen (new_adapter :: 'db adapter)
   \<and> (snd (fst (Open e a jsonconfig)) = None \<longrightarrow>
        IsOpen (fst (fst (Open e a jsonconfig))) \<and> \<not> IsOpen a)
   \<and> (snd (fst (Open e a jsonconfig)) \<noteq> None \<longrightarrow>
        IsOpen (fst (fst (Open e a jsonconfig))) = IsOpen a)
   \<and> \<not> IsOpen (fst (Close e a))
   \<and> (\<forall>a' err. Put e a contract topic payload = Return (a', err) \<longrightarrow> IsOpen a \<and> IsOpen a')
   \<and> (\<forall>a' err. PutWithID e a contract topic messageId payload = Return (a', err) \<longrightarrow>
        IsOpen a \<and> IsOpen a')
   \<and> (\<forall>a' err. Delete e a contract topic messageId = Return (a', err) \<longrightarrow> IsOpen a \<and> IsOpen a')"
  by (auto simp: IsOpen_def new_adapter_def Open_def Close_def Put_def PutWithID_def Delete_def
      Let_def split: option.splits sum.splits prod.splits)

theorem IsOpen_lifecycle_witness:
  "\<not> IsOpen (new_adapter :: IndexStore adapter)
   \<and> snd (fst (Open sample_env new_adapter ''{}'')) = None
   \<and> IsOpen (fst (fst (Open sample_env new_adapter ''{}'')))
   \<and> snd (fst (Open unavailable_env new_adapter ''{}'')) \<noteq> None
   \<and> \<not> IsOpen (fst (fst (Open unavailable_env new_adapter ''{}'')))
   \<and> \<not> IsOpen (fst (Close sample_env (fst (fst (Open sample_env new_adapter ''{}'')))))
   \<and> Put sample_env \<lparr>db = Some [], version = 0\<rparr> 1 [97] [120]
       = Return (\<lparr>db = Some [((1, [97], [0, 0, 0, 1, 0, 0, 0, 1, 97, 120]), [120])], version = 0\<rparr>, None)
   \<and> IsOpen \<lparr>db = Some [((1 :: uint32, [97 :: byte], [0, 0, 0, 1, 0, 0, 0, 1, 97, 120 :: byte]),
                          [120 :: byte])], version = 0\<rparr>"
proof -
  have opened: "Open sample_env new_adapter ''{}'' =
      ((\<lparr>db = Some [], version = 0\<rparr>, None), [(''adapter.Open'', ''Unable to create db dir'')])"
    by (simp add: Open_def sample_env_def spec_env_def new_adapter_def defaultDatabase_def)
  have failed: "Open unavailable_env new_adapter ''{}'' =
      ((\<lparr>db = None, version = 0\<rparr>, Some (errors_New ''storage unavailable'')),
       [(''adapter.Open'', ''Unable to create db dir''), (''adapter.Open'', ''Unable to open db'')])"
    by (simp add: Open_def unavailable_env_def sample_env_def spec_env_def new_adapter_def
        defaultDatabase_def)
  have put: "Put sample_env \<lparr>db = Some [], version = 0\<rparr> 1 [97] [120]
      = Return (\<lparr>db = Some [((1, [97], [0, 0, 0, 1, 0, 0, 0, 1, 97, 120]), [120])], version = 0\<rparr>, None)"
    by (simp add: Put_def sample_env_def spec_env_def Commit_def GenerateID_def contract_bytes_def
        IndexStore_Put_def)
  show ?thesis
    using opened failed put
      IsOpen_lifecycle [of "new_adapter :: IndexStore adapter" sample_env "''{}''" 1 "[97]" "[120]" "[]"]
      IsOpen_lifecycle [of "new_adapter :: IndexStore adapter" unavailable_env "''{}''" 1 "[97]" "[120]" "[]"]
      IsOpen_lifecycle [of "\<lparr>db = Some [], version = 0\<rparr>" sample_env "''{}''" 1 "[97]" "[120]" "[]"]
    by (simp add: IsOpen_def Close_def new_adapter_def)
qed

end
